theory Spec2Isabelle
  imports Main "HOL-Library.Word"
begin

section \<open>Values shared by the whole model\<close>

text \<open>
  The client is Python. Its exceptions are values here: every fallible operation returns
  \<open>exn + 'a\<close> with \<open>Inl\<close> the exception raised. Only the classes that the handlers of
  \<^verbatim>\<open>app.py\<close> tell apart get a constructor of their own; each carries the text that
  \<^verbatim>\<open>str(e)\<close> yields. All of them are subclasses of \<^verbatim>\<open>Exception\<close>, so an
  \<^verbatim>\<open>except Exception\<close> clause catches every value of the type.
\<close>

datatype exn =
    TimeoutException string
  | HTTPStatusError string
  | ValidationError string
  | OtherException string

fun str_exn :: "exn \<Rightarrow> string" where
  "str_exn (TimeoutException m) = m"
| "str_exn (HTTPStatusError m) = m"
| "str_exn (ValidationError m) = m"
| "str_exn (OtherException m) = m"

fun is_TimeoutException :: "exn \<Rightarrow> bool" where
  "is_TimeoutException (TimeoutException m) = True"
| "is_TimeoutException e = False"

fun is_HTTPStatusError :: "exn \<Rightarrow> bool" where
  "is_HTTPStatusError (HTTPStatusError m) = True"
| "is_HTTPStatusError e = False"

text \<open>\<^verbatim>\<open>try: body  except Exception: handler\<close> for a body without effects on the state.\<close>

definition try_except_Exception :: "(exn + 'a) \<Rightarrow> (exn \<Rightarrow> exn + 'a) \<Rightarrow> exn + 'a" where
  "try_except_Exception body handler = (case body of Inl e \<Rightarrow> handler e | Inr v \<Rightarrow> Inr v)"

type_synonym byte = "8 word"

text \<open>
  A Python \<^verbatim>\<open>str\<close> that comes off the wire is the list of its code points, so that
  \<open>length\<close> counts what \<^verbatim>\<open>len\<close> and pydantic's length constraints count. Text that
  is only displayed (names, log lines) and the ASCII output of the base64 encoder is an
  Isabelle \<open>string\<close>.
\<close>

type_synonym py_str = "nat list"

subsection \<open>\<^verbatim>\<open>str.encode()\<close>: UTF-8, errors strict\<close>

text \<open>
  A lone surrogate cannot be encoded: Python raises \<^verbatim>\<open>UnicodeEncodeError\<close> (its message
  is abridged here).
\<close>

definition utf8_char :: "nat \<Rightarrow> exn + byte list" where
  "utf8_char c =
     (if c < 0x80 then Inr [of_nat c]
      else if c < 0x800 then Inr [of_nat (0xC0 + c div 64), of_nat (0x80 + c mod 64)]
      else if 0xD800 \<le> c \<and> c \<le> 0xDFFF then Inl (OtherException ''surrogates not allowed'')
      else if c < 0x10000 then
        Inr [of_nat (0xE0 + c div 4096), of_nat (0x80 + c div 64 mod 64), of_nat (0x80 + c mod 64)]
      else
        Inr [of_nat (0xF0 + c div 262144), of_nat (0x80 + c div 4096 mod 64),
             of_nat (0x80 + c div 64 mod 64), of_nat (0x80 + c mod 64)])"

fun str_encode :: "py_str \<Rightarrow> exn + byte list" where
  "str_encode [] = Inr []"
| "str_encode (c # cs) =
     (case utf8_char c of
        Inl e \<Rightarrow> Inl e
      | Inr bs \<Rightarrow> (case str_encode cs of Inl e \<Rightarrow> Inl e | Inr rest \<Rightarrow> Inr (bs @ rest)))"

subsection \<open>\<^verbatim>\<open>base64.urlsafe_b64encode\<close>\<close>

definition b64_alphabet :: string where
  "b64_alphabet = ''ABCDEFGHIJKLMNOPQRSTUVWXYZabcdefghijklmnopqrstuvwxyz0123456789-_''"

definition b64_char :: "nat \<Rightarrow> char" where
  "b64_char i = b64_alphabet ! (i mod 64)"

fun urlsafe_b64encode :: "byte list \<Rightarrow> string" where
  "urlsafe_b64encode [] = []"
| "urlsafe_b64encode [a] =
     [b64_char (unat a div 4), b64_char (unat a mod 4 * 16), CHR ''='', CHR ''='']"
| "urlsafe_b64encode [a, b] =
     [b64_char (unat a div 4), b64_char (unat a mod 4 * 16 + unat b div 16),
      b64_char (unat b mod 16 * 4), CHR ''='']"
| "urlsafe_b64encode (a # b # c # rest) =
     [b64_char (unat a div 4), b64_char (unat a mod 4 * 16 + unat b div 16),
      b64_char (unat b mod 16 * 4 + unat c div 64), b64_char (unat c mod 64)]
     @ urlsafe_b64encode rest"

subsection \<open>Keys of the \<^verbatim>\<open>cryptography\<close> package\<close>

text \<open>
  A key object is the wrapper of its raw bytes. What the package computes with keys
  (signature verification, Diffie-Hellman, key generation, Fernet) is a parameter of the
  functions that call it.
\<close>

datatype Ed25519PublicKey = Ed25519PublicKey (verification_bytes_raw: "byte list")

datatype X25519PublicKey = X25519PublicKey (public_bytes_raw: "byte list")

datatype X25519PrivateKey = X25519PrivateKey (private_bytes_raw: "byte list")

section \<open>\<^verbatim>\<open>schema_components/types.py\<close>: the text-encoded field types\<close>

text \<open>
  A value handed to a pydantic field is any Python object: a \<^verbatim>\<open>str\<close>, a
  \<^verbatim>\<open>bytes\<close>, a key object, or something else. The field types are
  \<^verbatim>\<open>Annotated[T, ..., BeforeValidator(f)]\<close>: the before validator \<open>f\<close> runs on the raw
  input, then the schema of \<open>T\<close> checks what \<open>f\<close> hands on. The validators live in
  \<^verbatim>\<open>schema_components/validators.py\<close>, a module this development does not cover: they
  are parameters.
\<close>

datatype 'o py_value =
    PyStr py_str
  | PyBytes "byte list"
  | PyEd25519PublicKey Ed25519PublicKey
  | PyX25519PublicKey X25519PublicKey
  | PyObject 'o





text \<open>
  The types of the fields of inbound elements. \<^verbatim>\<open>VerificationKey\<close> and
  \<^verbatim>\<open>PublicExchangeKey\<close> are \<^verbatim>\<open>Annotated[K, BeforeValidator(lambda x:
  validate_key_output(x, K))]\<close> for a key class \<open>K\<close>: what the validator hands on must be
  an instance of \<open>K\<close>. \<^verbatim>\<open>RawSignature\<close> is \<^verbatim>\<open>Annotated[bytes,
  BeforeValidator(validate_signature_output)]\<close>: the bytes schema takes \<^verbatim>\<open>bytes\<close> of
  any length and, in lax mode, the encoding of a \<^verbatim>\<open>str\<close>. None of the three declares a
  length.
\<close>

datatype key_class =
    Fernet_class
  | X25519PrivateKey_class
  | X25519PublicKey_class
  | Ed25519PublicKey_class


definition PublicExchangeKey ::
  "('o py_value \<Rightarrow> key_class \<Rightarrow> exn + 'o py_value) \<Rightarrow> 'o py_value \<Rightarrow> exn + X25519PublicKey" where
  "PublicExchangeKey validate_key_output v =
     (case validate_key_output v X25519PublicKey_class of
        Inl e \<Rightarrow> Inl e
      | Inr (PyX25519PublicKey k) \<Rightarrow> Inr k
      | Inr v' \<Rightarrow> Inl (ValidationError ''is_instance_of''))"



section \<open>\<^verbatim>\<open>server/schemas/responses.py\<close>: the elements of a fetch response\<close>

text \<open>
  The classes are records, the subclasses extensions of the base record. A
  \<^verbatim>\<open>cached_property\<close> writes its value into the object on first use, so each one has a
  slot in the record and returns the object along with the value. A timestamp is a point
  on a line of integers.
\<close>

record FetchResponseElement =
  timestamp :: int
  sender_key :: Ed25519PublicKey
  signature :: "byte list"
  sender_key_b64_slot :: "string option"

record FetchResponseExchangeKey = FetchResponseElement +
  exchange_key :: X25519PublicKey
  initial_key :: "X25519PublicKey option"
  exchange_key_b64_slot :: "string option"
  initial_key_b64_slot :: "string option option"

record FetchResponseMessage = FetchResponseElement +
  nonce :: string
  encrypted_text :: py_str

definition sender_key_b64 ::
  "'a FetchResponseElement_scheme \<Rightarrow> string \<times> 'a FetchResponseElement_scheme" where
  "sender_key_b64 self =
     (case sender_key_b64_slot self of
        Some v \<Rightarrow> (v, self)
      | None \<Rightarrow>
          (let v = urlsafe_b64encode (verification_bytes_raw (sender_key self))
           in (v, self\<lparr>sender_key_b64_slot := Some v\<rparr>)))"

definition exchange_key_b64 ::
  "'a FetchResponseExchangeKey_scheme \<Rightarrow> string \<times> 'a FetchResponseExchangeKey_scheme" where
  "exchange_key_b64 self =
     (case exchange_key_b64_slot self of
        Some v \<Rightarrow> (v, self)
      | None \<Rightarrow>
          (let v = urlsafe_b64encode (public_bytes_raw (exchange_key self))
           in (v, self\<lparr>exchange_key_b64_slot := Some v\<rparr>)))"

definition initial_key_b64 ::
  "'a FetchResponseExchangeKey_scheme \<Rightarrow> string option \<times> 'a FetchResponseExchangeKey_scheme" where
  "initial_key_b64 self =
     (case initial_key_b64_slot self of
        Some v \<Rightarrow> (v, self)
      | None \<Rightarrow>
          (let v = (case initial_key self of
                      Some k \<Rightarrow> Some (urlsafe_b64encode (public_bytes_raw k))
                    | None \<Rightarrow> None)
           in (v, self\<lparr>initial_key_b64_slot := Some v\<rparr>)))"

text \<open>
  \<^verbatim>\<open>_get_data\<close> is abstract in the base class; \<open>is_valid\<close> takes the subclass's method as
  an argument. \<^verbatim>\<open>Ed25519PublicKey.verify\<close> returns nothing when the signature is good
  and raises otherwise. \<open>is_valid\<close> is a plain property: it stores nothing, and the object
  it returns is the one it was given.
\<close>

definition FetchResponseExchangeKey_get_data ::
  "'a FetchResponseExchangeKey_scheme \<Rightarrow> exn + byte list" where
  "FetchResponseExchangeKey_get_data self = Inr (public_bytes_raw (exchange_key self))"

definition FetchResponseMessage_get_data ::
  "'a FetchResponseMessage_scheme \<Rightarrow> exn + byte list" where
  "FetchResponseMessage_get_data self = str_encode (encrypted_text self)"

definition is_valid ::
  "(Ed25519PublicKey \<Rightarrow> byte list \<Rightarrow> byte list \<Rightarrow> exn + unit) \<Rightarrow>
   ('a FetchResponseElement_scheme \<Rightarrow> exn + byte list) \<Rightarrow>
   'a FetchResponseElement_scheme \<Rightarrow> (exn + bool) \<times> 'a FetchResponseElement_scheme" where
  "is_valid verify get_data self =
     (try_except_Exception
        (case get_data self of
           Inl e \<Rightarrow> Inl e
         | Inr data \<Rightarrow>
             (case verify (sender_key self) (signature self) data of
                Inl e \<Rightarrow> Inl e
              | Inr u \<Rightarrow> Inr True))
        (\<lambda>e. Inr False),
      self)"

text \<open>
  Decoding a message element from the mapping of field names to values that came off the
  wire. \<open>sender_key\<close> is looked up under its aliases, in their order; the other fields
  under their names. \<open>nonce\<close> must match \<^verbatim>\<open>^(?:[0-9a-fA-F]{2})+$\<close>;
  \<open>encrypted_text\<close> is a plain \<^verbatim>\<open>str\<close>. The parsing of a \<open>timestamp\<close> with its
  after validator is a parameter, like the validators of keys and signatures. The
  element is accepted when every field is; of the errors, the first in the order of the
  fields stands for all.
\<close>

record 'o validators =
  validate_key_output :: "'o py_value \<Rightarrow> key_class \<Rightarrow> exn + 'o py_value"
  validate_signature_output :: "'o py_value \<Rightarrow> exn + 'o py_value"
  Timestamp :: "'o py_value \<Rightarrow> exn + int"







section \<open>The collaborators of \<^verbatim>\<open>app.py\<close>\<close>

subsection \<open>Schemas and rows\<close>

text \<open>
  \<^verbatim>\<open>app.py\<close> imports its response schemas from \<^verbatim>\<open>server/schemas/responses.py\<close>; of
  a post-key response it reads \<^verbatim>\<open>data.timestamp\<close>, a post-message response it hands to
  the store as it is.
\<close>

record PostKeyResponseSchema =
  post_key_status :: string
  post_key_message :: string
  post_key_timestamp :: int

record PostMessageResponseSchema =
  post_message_status :: string
  post_message_message :: string
  post_message_nonce :: string
  post_message_timestamp :: int

record FetchResponseSchema =
  fetch_status :: string
  fetch_message :: string
  exchange_keys :: "FetchResponseExchangeKey list"
  messages :: "FetchResponseMessage list"

text \<open>
  The database models and output schemas (\<^verbatim>\<open>database/models.py\<close>,
  \<^verbatim>\<open>database/schemas/outputs.py\<close>) are modules this development does not cover. The records
  below hold the attributes that \<^verbatim>\<open>app.py\<close> reads and writes; an attribute
  \<^verbatim>\<open>id\<close> is written \<open>contact_id\<close>, \<open>key_id\<close> or \<open>row_id\<close>. A \<^verbatim>\<open>Fernet\<close> object
  wraps the encoded key it was made from.
\<close>

record BaseContactOutputSchema =
  contact_id :: nat
  name :: string
  verification_key :: Ed25519PublicKey

datatype Fernet = Fernet string

text \<open>
  Modelled from the spec: the entry of a contact's \<^verbatim>\<open>fernet_keys\<close>, whose schema is
  declared in \<^verbatim>\<open>database/schemas/outputs.py\<close>. \<^verbatim>\<open>app.py\<close> reads its \<^verbatim>\<open>key\<close>;
  the spec's session key is \<^verbatim>\<open>{contact_id, symmetric_key_bytes, derived_at}\<close>, and
  \<open>derived_at\<close> is the time stamp of the key's row, so that "most recently derived" can
  be said of an entry.
\<close>

record FernetKeyOutputSchema =
  key :: Fernet
  derived_at :: int

record ContactOutputSchema = BaseContactOutputSchema +
  fernet_keys :: "FernetKeyOutputSchema list"

record ReceivedExchangeKeyOutputSchema =
  key_id :: nat
  public_key :: X25519PublicKey
  contact :: BaseContactOutputSchema

record ReceivedExchangeKey =
  row_id :: nat
  row_contact_id :: nat
  row_public_key :: X25519PublicKey
  matched :: bool

record FernetKey =
  encoded_bytes :: string
  fernet_contact_id :: nat
  fernet_timestamp :: int

text \<open>
  The database behind \<^verbatim>\<open>self.engine\<close>: the three tables \<^verbatim>\<open>app.py\<close> touches itself,
  and the tables that only the operations of \<^verbatim>\<open>database/operations.py\<close> touch
  (\<open>other_tables\<close>).
\<close>

record 'd database =
  contact_rows :: "BaseContactOutputSchema list"
  received_exchange_key_rows :: "ReceivedExchangeKey list"
  fernet_key_rows :: "FernetKey list"
  other_tables :: 'd

text \<open>\<^verbatim>\<open>session.get(Contact, id)\<close> and \<^verbatim>\<open>session.get_one(ReceivedExchangeKey, id)\<close>.\<close>

definition session_get_Contact :: "'d database \<Rightarrow> nat \<Rightarrow> BaseContactOutputSchema option" where
  "session_get_Contact db i = find (\<lambda>r. contact_id r = i) (contact_rows db)"

definition session_get_one_ReceivedExchangeKey ::
  "'d database \<Rightarrow> nat \<Rightarrow> exn + ReceivedExchangeKey" where
  "session_get_one_ReceivedExchangeKey db i =
     (case find (\<lambda>r. row_id r = i) (received_exchange_key_rows db) of
        None \<Rightarrow> Inl (OtherException ''No row was found when one was required'')
      | Some r \<Rightarrow> Inr r)"

text \<open>Setting \<^verbatim>\<open>matched = True\<close> on the row that \<open>get_one\<close> returned.\<close>

fun set_matched :: "nat \<Rightarrow> ReceivedExchangeKey list \<Rightarrow> ReceivedExchangeKey list" where
  "set_matched i [] = []"
| "set_matched i (r # rs) =
     (if row_id r = i then r\<lparr>matched := True\<rparr> # rs else r # set_matched i rs)"

subsection \<open>What the client does to the outside\<close>

text \<open>
  The requests sent to the relay and the sleeps of the background loop are recorded, in
  the order in which they happen.
\<close>

datatype request =
    Ping
  | FetchData "Ed25519PublicKey list"
  | PostExchangeKey Ed25519PublicKey X25519PublicKey "X25519PublicKey option"
  | PostMessage Ed25519PublicKey "byte list"

datatype event = Request request | Sleep

fun is_fetch :: "event \<Rightarrow> bool" where
  "is_fetch (Request (FetchData ks)) = True"
| "is_fetch e = False"

fun is_response_post :: "event \<Rightarrow> bool" where
  "is_response_post (Request (PostExchangeKey r k (Some i))) = True"
| "is_response_post e = False"

fun is_offer_post :: "event \<Rightarrow> bool" where
  "is_offer_post (Request (PostExchangeKey r k None)) = True"
| "is_offer_post e = False"

text \<open>An entry of the output log: its title and its text (the time of day is left out).\<close>

datatype log_item = Log_item string string

subsection \<open>The environment\<close>

text \<open>
  Everything \<^verbatim>\<open>app.py\<close> calls and the three modelled files do not define is a field of
  the environment: the transport (\<^verbatim>\<open>server/operations.py\<close> and \<^verbatim>\<open>httpx\<close>), whose
  outcome may depend on the number of events so far; the database operations
  (\<^verbatim>\<open>database/operations.py\<close>), where a read returns a value or raises and a write
  returns the database it leaves behind, raising or not; the validation of a contact row
  into its output schema; the refresh of the message panel from the database
  (\<^verbatim>\<open>components/messages.py\<close>), which may raise; and the \<^verbatim>\<open>cryptography\<close> package, where the \<open>n\<close>-th fresh
  private key is \<open>generate n\<close>.
\<close>

record 'd env =
  ping :: "nat \<Rightarrow> exn + unit"
  fetch_data :: "nat \<Rightarrow> Ed25519PublicKey list \<Rightarrow> exn + FetchResponseSchema"
  post_exchange_key ::
    "nat \<Rightarrow> Ed25519PublicKey \<Rightarrow> X25519PublicKey \<Rightarrow> X25519PublicKey option \<Rightarrow>
     exn + PostKeyResponseSchema"
  post_message :: "nat \<Rightarrow> Ed25519PublicKey \<Rightarrow> byte list \<Rightarrow> exn + PostMessageResponseSchema"
  get_contact_keys :: "'d database \<Rightarrow> exn + Ed25519PublicKey list"
  get_unmatched_keys :: "'d database \<Rightarrow> exn + ReceivedExchangeKeyOutputSchema list"
  get_contacts_without_keys :: "'d database \<Rightarrow> exn + BaseContactOutputSchema list"
  store_fetched_data :: "'d database \<Rightarrow> FetchResponseSchema \<Rightarrow> exn option \<times> 'd database"
  store_posted_exchange_key ::
    "'d database \<Rightarrow> nat \<Rightarrow> X25519PrivateKey \<Rightarrow> exn option \<times> 'd database"
  store_posted_message ::
    "'d database \<Rightarrow> py_str \<Rightarrow> nat \<Rightarrow> PostMessageResponseSchema \<Rightarrow> exn option \<times> 'd database"
  ContactOutputSchema_model_validate ::
    "'d database \<Rightarrow> BaseContactOutputSchema \<Rightarrow> exn + ContactOutputSchema"
  message_log_update :: "'d database \<Rightarrow> exn option"
  generate :: "nat \<Rightarrow> X25519PrivateKey"
  private_key_public_key :: "X25519PrivateKey \<Rightarrow> X25519PublicKey"
  exchange :: "X25519PrivateKey \<Rightarrow> X25519PublicKey \<Rightarrow> exn + byte list"
  fernet_encrypt :: "nat \<Rightarrow> Fernet \<Rightarrow> byte list \<Rightarrow> byte list"

section \<open>\<^verbatim>\<open>app.py\<close>: the class \<^verbatim>\<open>App\<close>\<close>

text \<open>
  The state of an \<^verbatim>\<open>App\<close> object, as far as the synchronisation code reads and writes
  it, with the database and the record of requests and sleeps. Each method is a function
  of one thread of control: it takes the state and returns the state it leaves, with the
  exception that escaped it, if one did. A method named \<^verbatim>\<open>_m\<close> in the source is
  \<open>m\<close> here, or \<open>App_m\<close> where the transport has an operation of the same name.
  The completed calls of \<^verbatim>\<open>message_log.update()\<close> are counted. Appending to the output
  log (\<^verbatim>\<open>output_log.add_item\<close>) is taken not to raise.
\<close>

record 'd App =
  engine :: "'d database"
  connected :: bool
  selected_contact :: "BaseContactOutputSchema option"
  message_entry_input :: py_str
  message_entry_cursor_index :: nat
  message_entry_draw_required :: bool
  output_log :: "log_item list"
  message_log_updates :: nat
  trace :: "event list"
  keys_generated :: nat

definition add_item :: "log_item \<Rightarrow> 'd App \<Rightarrow> 'd App" where
  "add_item item s = s\<lparr>output_log := output_log s @ [item]\<rparr>"

definition send :: "request \<Rightarrow> 'd App \<Rightarrow> 'd App" where
  "send r s = s\<lparr>trace := trace s @ [Request r]\<rparr>"

definition ping_server :: "'d env \<Rightarrow> 'd App \<Rightarrow> bool \<times> 'd App" where
  "ping_server env s =
     (case ping env (length (trace s)) of
        Inr u \<Rightarrow>
          (True, add_item (Log_item ''Connection Established''
                             ''Successfully connected to the server.'') (send Ping s))
      | Inl e \<Rightarrow> (False, send Ping s))"

text \<open>
  \<^verbatim>\<open>_fetch_handler\<close>: the \<^verbatim>\<open>try\<close> covers the fetch, the store and the redraw; its
  only handler is for \<^verbatim>\<open>HTTPStatusError\<close>.
\<close>

definition fetch_except :: "exn \<Rightarrow> 'd App \<Rightarrow> exn option \<times> 'd App" where
  "fetch_except e s =
     (if is_HTTPStatusError e then (None, add_item (Log_item ''Bad Response'' (str_exn e)) s)
      else (Some e, s))"

definition fetch_handler :: "'d env \<Rightarrow> 'd App \<Rightarrow> exn option \<times> 'd App" where
  "fetch_handler env s =
     (case get_contact_keys env (engine s) of
        Inl e \<Rightarrow> (Some e, s)
      | Inr contact_keys \<Rightarrow>
          if contact_keys = [] then (None, s)
          else
            (case fetch_data env (length (trace s)) contact_keys of
               Inl e \<Rightarrow> fetch_except e (send (FetchData contact_keys) s)
             | Inr response \<Rightarrow>
                 (case store_fetched_data env (engine s) response of
                    (Some e, db) \<Rightarrow>
                      fetch_except e (send (FetchData contact_keys) (s\<lparr>engine := db\<rparr>))
                  | (None, db) \<Rightarrow>
                      (case message_log_update env db of
                         Some e \<Rightarrow>
                           fetch_except e (send (FetchData contact_keys) (s\<lparr>engine := db\<rparr>))
                       | None \<Rightarrow>
                           (None, send (FetchData contact_keys)
                                    (s\<lparr>engine := db,
                                       message_log_updates :=
                                         Suc (message_log_updates s)\<rparr>))))))"

text \<open>
  \<^verbatim>\<open>_key_response_handler\<close>. The body of its \<^verbatim>\<open>for\<close> loop: key generation and the
  Diffie-Hellman exchange stand before the \<^verbatim>\<open>try\<close>, which covers the post alone; the
  database session sets the flag and adds the key, and commits both at once.
\<close>

definition key_response_body ::
  "'d env \<Rightarrow> ReceivedExchangeKeyOutputSchema \<Rightarrow> 'd App \<Rightarrow> exn option \<times> 'd App" where
  "key_response_body env k s =
     (let private_key = generate env (keys_generated s);
          s1 = s\<lparr>keys_generated := Suc (keys_generated s)\<rparr>
      in case exchange env private_key (public_key k) of
           Inl e \<Rightarrow> (Some e, s1)
         | Inr shared_secret \<Rightarrow>
             (let encoded_shared_secret = urlsafe_b64encode shared_secret;
                  s2 = send (PostExchangeKey (verification_key (contact k))
                               (private_key_public_key env private_key) (Some (public_key k))) s1
              in case post_exchange_key env (length (trace s1)) (verification_key (contact k))
                        (private_key_public_key env private_key) (Some (public_key k)) of
                   Inl e \<Rightarrow>
                     if is_HTTPStatusError e
                     then (None, add_item (Log_item ''Bad Response'' (str_exn e)) s2)
                     else (Some e, s2)
                 | Inr response \<Rightarrow>
                     (case session_get_one_ReceivedExchangeKey (engine s2) (key_id k) of
                        Inl e \<Rightarrow> (Some e, s2)
                      | Inr matched_key \<Rightarrow>
                          (None,
                           s2\<lparr>engine := (engine s2)
                                \<lparr>received_exchange_key_rows :=
                                   set_matched (key_id k) (received_exchange_key_rows (engine s2)),
                                 fernet_key_rows :=
                                   fernet_key_rows (engine s2) @
                                   [\<lparr>encoded_bytes = encoded_shared_secret,
                                     fernet_contact_id = contact_id (contact k),
                                     fernet_timestamp = post_key_timestamp response\<rparr>]\<rparr>\<rparr>))))"

fun key_response_loop ::
  "'d env \<Rightarrow> ReceivedExchangeKeyOutputSchema list \<Rightarrow> 'd App \<Rightarrow> exn option \<times> 'd App" where
  "key_response_loop env [] s = (None, s)"
| "key_response_loop env (k # ks) s =
     (case key_response_body env k s of
        (Some e, s') \<Rightarrow> (Some e, s')
      | (None, s') \<Rightarrow> key_response_loop env ks s')"

definition key_response_handler :: "'d env \<Rightarrow> 'd App \<Rightarrow> exn option \<times> 'd App" where
  "key_response_handler env s =
     (case get_unmatched_keys env (engine s) of
        Inl e \<Rightarrow> (Some e, s)
      | Inr unmatched_keys \<Rightarrow> key_response_loop env unmatched_keys s)"

text \<open>
  \<^verbatim>\<open>_post_exchange_key\<close>: shared by the background loop and the user's command. Its
  \<^verbatim>\<open>try\<close> has a handler for every exception, so nothing escapes it.
\<close>

definition post_exchange_key_except :: "exn \<Rightarrow> log_item" where
  "post_exchange_key_except e =
     (if is_TimeoutException e
      then Log_item ''Exchange Key Post Error'' ''Exchange key post request timed out.''
      else if is_HTTPStatusError e
      then Log_item ''Exchange Key Post Error - Bad Response'' (str_exn e)
      else Log_item ''Exchange Key Post Error - Unhandled Exception'' (str_exn e))"

definition App_post_exchange_key :: "'d env \<Rightarrow> BaseContactOutputSchema \<Rightarrow> 'd App \<Rightarrow> 'd App" where
  "App_post_exchange_key env c s =
     (if \<not> connected s
      then add_item (Log_item ''Exchange Key Post Error - No Connection''
             ''No exchange keys can be sent until a connection to the server is established.'') s
      else
        (let private_exchange_key = generate env (keys_generated s);
             s1 = send (PostExchangeKey (verification_key c)
                          (private_key_public_key env private_exchange_key) None)
                    (s\<lparr>keys_generated := Suc (keys_generated s)\<rparr>)
         in case post_exchange_key env (length (trace s)) (verification_key c)
                   (private_key_public_key env private_exchange_key) None of
              Inl e \<Rightarrow> add_item (post_exchange_key_except e) s1
            | Inr response \<Rightarrow>
                (case store_posted_exchange_key env (engine s1) (contact_id c)
                        private_exchange_key of
                   (Some e, db) \<Rightarrow> add_item (post_exchange_key_except e) (s1\<lparr>engine := db\<rparr>)
                 | (None, db) \<Rightarrow>
                     add_item (Log_item ''Exchange Key Post Success''
                                 (''Posted exchange key to '' @ name c @ ''.''))
                       (s1\<lparr>engine := db\<rparr>))))"

fun new_contact_key_loop :: "'d env \<Rightarrow> BaseContactOutputSchema list \<Rightarrow> 'd App \<Rightarrow> 'd App" where
  "new_contact_key_loop env [] s = s"
| "new_contact_key_loop env (c # cs) s = new_contact_key_loop env cs (App_post_exchange_key env c s)"

definition new_contact_key_handler :: "'d env \<Rightarrow> 'd App \<Rightarrow> exn option \<times> 'd App" where
  "new_contact_key_handler env s =
     (case get_contacts_without_keys env (engine s) of
        Inl e \<Rightarrow> (Some e, s)
      | Inr new_contacts \<Rightarrow> (None, new_contact_key_loop env new_contacts s))"

text \<open>
  \<^verbatim>\<open>_run_server_operations\<close>. \<open>cycle\<close> is the body of its \<^verbatim>\<open>try\<close>: three calls,
  one after the other, the first exception ending it. \<open>server_iteration\<close> is one pass
  through the body of \<^verbatim>\<open>while True\<close>: when the engine is not connected the pass ends at
  \<^verbatim>\<open>continue\<close>, before the \<^verbatim>\<open>time.sleep\<close> that closes every other pass. The loop
  never ends; \<open>run_server_operations n\<close> is the state after \<open>n\<close> passes.
\<close>

definition cycle :: "'d env \<Rightarrow> 'd App \<Rightarrow> exn option \<times> 'd App" where
  "cycle env s =
     (case fetch_handler env s of
        (Some e, s1) \<Rightarrow> (Some e, s1)
      | (None, s1) \<Rightarrow>
          (case key_response_handler env s1 of
             (Some e, s2) \<Rightarrow> (Some e, s2)
           | (None, s2) \<Rightarrow> new_contact_key_handler env s2))"

definition server_except :: "exn \<Rightarrow> 'd App \<Rightarrow> 'd App" where
  "server_except e s =
     (if is_TimeoutException e
      then (add_item (Log_item ''Server Connection Error''
                        ''Request timed out. Attempting to reconnect...'') s)
             \<lparr>connected := False\<rparr>
      else add_item (Log_item ''Unhandled Server Error'' (str_exn e)) s)"

definition sleep :: "'d App \<Rightarrow> 'd App" where
  "sleep s = s\<lparr>trace := trace s @ [Sleep]\<rparr>"

definition server_iteration :: "'d env \<Rightarrow> 'd App \<Rightarrow> 'd App" where
  "server_iteration env s =
     (if \<not> connected s
      then (case ping_server env s of (b, s') \<Rightarrow> s'\<lparr>connected := b\<rparr>)
      else
        (case cycle env s of
           (None, s') \<Rightarrow> sleep s'
         | (Some e, s') \<Rightarrow> sleep (server_except e s')))"

fun run_server_operations :: "nat \<Rightarrow> 'd env \<Rightarrow> 'd App \<Rightarrow> 'd App" where
  "run_server_operations 0 env s = s"
| "run_server_operations (Suc n) env s = run_server_operations n env (server_iteration env s)"

text \<open>
  \<^verbatim>\<open>_post_message\<close>. The validation of the contact stands before the \<^verbatim>\<open>try\<close>; the
  encoding and encryption of the plaintext, the post, the store and the updates of the
  entry field stand inside it.
\<close>

definition post_message_except :: "exn \<Rightarrow> log_item" where
  "post_message_except e =
     (if is_TimeoutException e
      then Log_item ''Message Post Error - Request Timed Out'' ''Message post request timed out.''
      else if is_HTTPStatusError e
      then Log_item ''Message Post Error - Bad Response'' (str_exn e)
      else Log_item ''Message Post Error - Unhandled Exception'' (str_exn e))"

definition App_post_message :: "'d env \<Rightarrow> 'd App \<Rightarrow> exn option \<times> 'd App" where
  "App_post_message env s =
     (case selected_contact s of
        None \<Rightarrow> (None, s)
      | Some sc \<Rightarrow>
          if message_entry_input s = [] then (None, s)
          else if \<not> connected s
          then (None, add_item (Log_item ''Message Post Error - No Connection''
                  ''No messages can be sent until a connection to the server is established.'') s)
          else
            (case session_get_Contact (engine s) (contact_id sc) of
               None \<Rightarrow> (None, s)
             | Some obj \<Rightarrow>
                 (case ContactOutputSchema_model_validate env (engine s) obj of
                    Inl e \<Rightarrow> (Some e, s)
                  | Inr c \<Rightarrow>
                      (case fernet_keys c of
                         [] \<Rightarrow>
                           (None, add_item (Log_item ''Message Post Error - No Encryption Key''
                              (''No messages can be posted before a successful key exchange with ''
                               @ name c @ ''.'')) s)
                       | k0 # ks \<Rightarrow>
                           (let plaintext = message_entry_input s
                            in case str_encode plaintext of
                                 Inl e \<Rightarrow> (None, add_item (post_message_except e) s)
                               | Inr data \<Rightarrow>
                                   (let encrypted_text =
                                          fernet_encrypt env (length (trace s)) (key k0) data;
                                        s1 = send (PostMessage (verification_key c) encrypted_text) s
                                    in case post_message env (length (trace s))
                                              (verification_key c) encrypted_text of
                                         Inl e \<Rightarrow> (None, add_item (post_message_except e) s1)
                                       | Inr response \<Rightarrow>
                                           (case store_posted_message env (engine s1) plaintext
                                                   (contact_id c) response of
                                              (Some e, db) \<Rightarrow>
                                                (None, add_item (post_message_except e)
                                                         (s1\<lparr>engine := db\<rparr>))
                                            | (None, db) \<Rightarrow>
                                                (let s2 =
                                                       add_item (Log_item ''Message Post Success''
                                                         (''Message sent to '' @ name sc @ ''.''))
                                                         (s1\<lparr>engine := db,
                                                             message_entry_input := [],
                                                             message_entry_cursor_index := 0,
                                                             message_entry_draw_required := True\<rparr>)
                                                 in case message_log_update env db of
                                                      Some e \<Rightarrow>
                                                        (None, add_item (post_message_except e) s2)
                                                    | None \<Rightarrow>
                                                        (None,
                                                         s2\<lparr>message_log_updates :=
                                                              Suc (message_log_updates s2)\<rparr>)))))))))"

section \<open>A small world to run the model in\<close>

text \<open>
  Concrete inputs for the examples that follow the theorems: a signature scheme in which
  the signature of a payload is the signer's key bytes followed by the payload, two
  contacts, a database with one open offer from the first of them, a relay that accepts
  every request, and database operations that read the tables in the plainest way.
\<close>

definition toy_verify :: "Ed25519PublicKey \<Rightarrow> byte list \<Rightarrow> byte list \<Rightarrow> exn + unit" where
  "toy_verify k s d =
     (if s = verification_bytes_raw k @ d then Inr ()
      else Inl (OtherException ''InvalidSignature''))"

definition toy_exchange_key_element :: FetchResponseExchangeKey where
  "toy_exchange_key_element =
     \<lparr>timestamp = 0, sender_key = Ed25519PublicKey [7], signature = [7, 1, 2],
      sender_key_b64_slot = None, exchange_key = X25519PublicKey [1, 2], initial_key = None,
      exchange_key_b64_slot = None, initial_key_b64_slot = None\<rparr>"

definition toy_message_element :: "py_str \<Rightarrow> FetchResponseMessage" where
  "toy_message_element txt =
     \<lparr>timestamp = 0, sender_key = Ed25519PublicKey [7], signature = [7, 0x68, 0x69],
      sender_key_b64_slot = None, nonce = ''00'', encrypted_text = txt\<rparr>"

definition bob :: BaseContactOutputSchema where
  "bob = \<lparr>contact_id = 1, name = ''bob'', verification_key = Ed25519PublicKey [0xB0]\<rparr>"

definition carol :: BaseContactOutputSchema where
  "carol = \<lparr>contact_id = 2, name = ''carol'', verification_key = Ed25519PublicKey [0xCA]\<rparr>"

definition demo_database :: "unit database" where
  "demo_database =
     \<lparr>contact_rows = [bob, carol],
      received_exchange_key_rows =
        [\<lparr>row_id = 7, row_contact_id = 1, row_public_key = X25519PublicKey [9],
          matched = False\<rparr>],
      fernet_key_rows = [],
      other_tables = ()\<rparr>"

definition demo_unmatched ::
  "unit database \<Rightarrow> ReceivedExchangeKey \<Rightarrow> ReceivedExchangeKeyOutputSchema list" where
  "demo_unmatched db r =
     (if matched r then []
      else (case find (\<lambda>c. contact_id c = row_contact_id r) (contact_rows db) of
              None \<Rightarrow> []
            | Some c \<Rightarrow> [\<lparr>key_id = row_id r, public_key = row_public_key r, contact = c\<rparr>]))"

definition demo_model_validate ::
  "unit database \<Rightarrow> BaseContactOutputSchema \<Rightarrow> exn + ContactOutputSchema" where
  "demo_model_validate db obj =
     Inr \<lparr>contact_id = contact_id obj, name = name obj,
          verification_key = verification_key obj,
          fernet_keys =
            map (\<lambda>r. \<lparr>key = Fernet (encoded_bytes r), derived_at = fernet_timestamp r\<rparr>)
              (rev (filter (\<lambda>r. fernet_contact_id r = contact_id obj) (fernet_key_rows db)))\<rparr>"

definition demo_env :: "unit env" where
  "demo_env =
     \<lparr>ping = (\<lambda>n. Inr ()),
      fetch_data = (\<lambda>n ks. Inr \<lparr>fetch_status = ''ok'', fetch_message = ''fetched'',
                                  exchange_keys = [], messages = []\<rparr>),
      post_exchange_key = (\<lambda>n r k i. Inr \<lparr>post_key_status = ''ok'', post_key_message = ''posted'',
                                             post_key_timestamp = int n\<rparr>),
      post_message = (\<lambda>n r t. Inr \<lparr>post_message_status = ''ok'',
                                      post_message_message = ''posted'',
                                      post_message_nonce = ''00'',
                                      post_message_timestamp = int n\<rparr>),
      get_contact_keys = (\<lambda>db. Inr (map verification_key (contact_rows db))),
      get_unmatched_keys =
        (\<lambda>db. Inr (concat (map (demo_unmatched db) (received_exchange_key_rows db)))),
      get_contacts_without_keys =
        (\<lambda>db. Inr (filter (\<lambda>c. \<not> list_ex (\<lambda>r. fernet_contact_id r = contact_id c)
                                       (fernet_key_rows db))
                      (contact_rows db))),
      store_fetched_data = (\<lambda>db r. (None, db)),
      store_posted_exchange_key = (\<lambda>db c k. (None, db)),
      store_posted_message = (\<lambda>db p c r. (None, db)),
      ContactOutputSchema_model_validate = demo_model_validate,
      message_log_update = (\<lambda>db. None),
      generate = (\<lambda>n. X25519PrivateKey [of_nat n]),
      private_key_public_key = (\<lambda>k. X25519PublicKey (map (\<lambda>b. b + 1) (private_bytes_raw k))),
      exchange = (\<lambda>k p. Inr (private_bytes_raw k @ public_bytes_raw p)),
      fernet_encrypt =
        (\<lambda>n f d. (case f of Fernet k \<Rightarrow> map (\<lambda>c. of_nat (of_char c)) k @ d))\<rparr>"

definition demo_app :: "unit App" where
  "demo_app =
     \<lparr>engine = demo_database, connected = True, selected_contact = Some bob,
      message_entry_input = [0x68, 0x69], message_entry_cursor_index = 2,
      message_entry_draw_required = False, output_log = [], message_log_updates = 0,
      trace = [], keys_generated = 0\<rparr>"

text \<open>Variations of the small world: other databases, and relays that fail.\<close>

definition offer7 :: ReceivedExchangeKeyOutputSchema where
  "offer7 = \<lparr>key_id = 7, public_key = X25519PublicKey [9], contact = bob\<rparr>"

definition offer8 :: ReceivedExchangeKeyOutputSchema where
  "offer8 = \<lparr>key_id = 8, public_key = X25519PublicKey [10], contact = carol\<rparr>"

definition two_offers_app :: "unit App" where
  "two_offers_app =
     demo_app\<lparr>engine := demo_database
       \<lparr>received_exchange_key_rows :=
          [\<lparr>row_id = 7, row_contact_id = 1, row_public_key = X25519PublicKey [9],
            matched = False\<rparr>,
           \<lparr>row_id = 8, row_contact_id = 2, row_public_key = X25519PublicKey [10],
            matched = False\<rparr>]\<rparr>\<rparr>"

definition no_offers_app :: "unit App" where
  "no_offers_app = demo_app\<lparr>engine := demo_database\<lparr>received_exchange_key_rows := []\<rparr>\<rparr>"

definition no_contacts_app :: "unit App" where
  "no_contacts_app = demo_app\<lparr>engine := demo_database\<lparr>contact_rows := []\<rparr>\<rparr>"

definition disconnected_app :: "unit App" where
  "disconnected_app = demo_app\<lparr>connected := False\<rparr>"

definition keyed_app :: "unit App" where
  "keyed_app =
     demo_app\<lparr>engine := demo_database
       \<lparr>fernet_key_rows :=
          [\<lparr>encoded_bytes = ''AAk='', fernet_contact_id = 1, fernet_timestamp = 10\<rparr>,
           \<lparr>encoded_bytes = ''AQk='', fernet_contact_id = 1, fernet_timestamp = 20\<rparr>]\<rparr>\<rparr>"

definition accepted :: "nat \<Rightarrow> exn + PostKeyResponseSchema" where
  "accepted n =
     Inr \<lparr>post_key_status = ''ok'', post_key_message = ''posted'', post_key_timestamp = int n\<rparr>"

definition rejecting_first_env :: "unit env" where
  "rejecting_first_env =
     demo_env\<lparr>post_exchange_key :=
       (\<lambda>n r k i. if n = 0 then Inl (HTTPStatusError ''409 Conflict'') else accepted n)\<rparr>"

definition fetch_times_out_env :: "unit env" where
  "fetch_times_out_env =
     demo_env\<lparr>fetch_data := (\<lambda>n ks. Inl (TimeoutException ''timed out''))\<rparr>"

definition posts_time_out_env :: "unit env" where
  "posts_time_out_env =
     demo_env\<lparr>post_exchange_key := (\<lambda>n r k i. Inl (TimeoutException ''timed out''))\<rparr>"

definition database_locked_env :: "unit env" where
  "database_locked_env =
     demo_env\<lparr>get_unmatched_keys := (\<lambda>db. Inl (OtherException ''database is locked''))\<rparr>"

definition unreachable_env :: "unit env" where
  "unreachable_env = demo_env\<lparr>ping := (\<lambda>n. Inl (OtherException ''connection refused''))\<rparr>"







definition short_signature_text :: py_str where
  "short_signature_text = replicate 84 0x41"

section \<open>Properties of the codec\<close>



lemmas demo_defs = demo_env_def demo_app_def demo_database_def bob_def carol_def
  demo_unmatched_def demo_model_validate_def offer7_def offer8_def two_offers_app_def
  no_offers_app_def no_contacts_app_def disconnected_app_def keyed_app_def accepted_def
  rejecting_first_env_def fetch_times_out_env_def posts_time_out_env_def
  database_locked_env_def unreachable_env_def

lemmas app_defs = cycle_def fetch_handler_def fetch_except_def key_response_handler_def
  key_response_body_def new_contact_key_handler_def App_post_exchange_key_def
  session_get_one_ReceivedExchangeKey_def add_item_def send_def Let_def
  post_exchange_key_except_def

lemmas step_defs = server_iteration_def server_except_def sleep_def ping_server_def

section \<open>The verifier\<close>

text \<open>
  C1. \<open>is_valid\<close> checks the element's signature against its \<open>sender_key\<close> over the payload
  of its kind: for an exchange-key element the raw bytes of its own \<open>exchange_key\<close>, for a
  message element the encoding of its \<open>encrypted_text\<close>. Its result is always a truth
  value, never an exception: it is \<open>True\<close> exactly when the payload could be computed and
  the verification returned, and \<open>False\<close> when either raised. This holds for every
  verification function, every element and every subclass's \<open>_get_data\<close>, and the
  object that comes back is the object that went in, cache slots included.
\<close>

theorem is_valid_verifies_payload:
  "is_valid verify FetchResponseExchangeKey_get_data k =
     (Inr (verify (sender_key k) (signature k) (public_bytes_raw (exchange_key k)) = Inr ()), k)
   \<and> is_valid verify FetchResponseMessage_get_data m =
     (Inr (case str_encode (encrypted_text m) of
             Inl e \<Rightarrow> False
           | Inr data \<Rightarrow> verify (sender_key m) (signature m) data = Inr ()), m)
   \<and> (\<exists>b. is_valid verify get_data self = (Inr b, self))"
  by (auto simp: is_valid_def try_except_Exception_def FetchResponseExchangeKey_get_data_def
      FetchResponseMessage_get_data_def split: sum.splits)

text \<open>
  An exchange-key element signed over its key bytes and a message signed over its text are
  valid; the same message signature over another text is not; a text that cannot be
  encoded makes the element invalid instead of raising.
\<close>

theorem is_valid_verifies_payload_witness:
  "is_valid toy_verify FetchResponseExchangeKey_get_data toy_exchange_key_element =
     (Inr True, toy_exchange_key_element)
   \<and> is_valid toy_verify FetchResponseMessage_get_data (toy_message_element [0x68, 0x69]) =
     (Inr True, toy_message_element [0x68, 0x69])
   \<and> is_valid toy_verify FetchResponseMessage_get_data (toy_message_element [0x68, 0x6A]) =
     (Inr False, toy_message_element [0x68, 0x6A])
   \<and> is_valid toy_verify FetchResponseMessage_get_data (toy_message_element [0xD800]) =
     (Inr False, toy_message_element [0xD800])"
  using is_valid_verifies_payload [of toy_verify toy_exchange_key_element
      "toy_message_element [0x68, 0x69]" FetchResponseExchangeKey_get_data toy_exchange_key_element]
    is_valid_verifies_payload [of toy_verify toy_exchange_key_element
      "toy_message_element [0x68, 0x6A]" FetchResponseExchangeKey_get_data toy_exchange_key_element]
    is_valid_verifies_payload [of toy_verify toy_exchange_key_element
      "toy_message_element [0xD800]" FetchResponseExchangeKey_get_data toy_exchange_key_element]
  by (simp add: toy_verify_def toy_exchange_key_element_def toy_message_element_def utf8_char_def)

section \<open>The lengths of text-encoded fields\<close>








lemma short_signature_text_is_encoding:
  "map of_char (urlsafe_b64encode (replicate 63 0)) = short_signature_text"
  unfolding short_signature_text_def by code_simp



section \<open>The fetch step without contacts\<close>

text \<open>
  C10. When the store knows no contact verification key, the fetch step returns at once:
  no exception, and the state it leaves is the state it found, so no request was sent
  and neither the database nor the logs changed.
\<close>

theorem fetch_handler_without_contact_keys:
  "get_contact_keys env (engine s) = Inr [] \<Longrightarrow> fetch_handler env s = (None, s)"
  by (simp add: fetch_handler_def)

theorem fetch_handler_without_contact_keys_witness:
  "get_contact_keys demo_env (engine no_contacts_app) = Inr []
   \<and> fetch_handler demo_env no_contacts_app = (None, no_contacts_app)"
proof -
  have h: "get_contact_keys demo_env (engine no_contacts_app) = Inr []"
    by (simp add: demo_env_def no_contacts_app_def)
  from h fetch_handler_without_contact_keys [OF h] show ?thesis by simp
qed

section \<open>The order of the steps of a cycle\<close>

lemma fetch_handler_trace:
  "\<exists>es. trace (snd (fetch_handler env s)) = trace s @ es \<and> list_all is_fetch es"
  by (auto simp: fetch_handler_def fetch_except_def add_item_def send_def
      split: sum.splits option.splits prod.splits)

lemma key_response_body_trace:
  "\<exists>es. trace (snd (key_response_body env k s)) = trace s @ es \<and> list_all is_response_post es"
  by (auto simp: key_response_body_def Let_def add_item_def send_def
      split: sum.splits option.splits prod.splits)

lemma key_response_loop_trace:
  "\<exists>es. trace (snd (key_response_loop env ks s)) = trace s @ es \<and> list_all is_response_post es"
proof (induction ks arbitrary: s)
  case Nil
  show ?case by simp
next
  case (Cons k ks)
  obtain r s' where b: "key_response_body env k s = (r, s')"
    by (cases "key_response_body env k s")
  from key_response_body_trace [of env k s] b obtain es
    where es: "trace s' = trace s @ es" "list_all is_response_post es"
    by auto
  show ?case
  proof (cases r)
    case (Some e)
    with b es show ?thesis by simp
  next
    case None
    from Cons.IH [of s'] obtain fs
      where fs: "trace (snd (key_response_loop env ks s')) = trace s' @ fs"
        "list_all is_response_post fs"
      by auto
    with None b es have "trace (snd (key_response_loop env (k # ks) s)) = trace s @ (es @ fs)"
      and "list_all is_response_post (es @ fs)"
      by simp_all
    then show ?thesis by blast
  qed
qed

lemma key_response_handler_trace:
  "\<exists>es. trace (snd (key_response_handler env s)) = trace s @ es \<and> list_all is_response_post es"
  using key_response_loop_trace [of env _ s]
  by (auto simp: key_response_handler_def split: sum.splits)

lemma App_post_exchange_key_trace:
  "\<exists>es. trace (App_post_exchange_key env c s) = trace s @ es \<and> list_all is_offer_post es"
  by (auto simp: App_post_exchange_key_def Let_def add_item_def send_def
      split: sum.splits option.splits prod.splits)

lemma new_contact_key_loop_trace:
  "\<exists>es. trace (new_contact_key_loop env cs s) = trace s @ es \<and> list_all is_offer_post es"
proof (induction cs arbitrary: s)
  case Nil
  show ?case by simp
next
  case (Cons c cs)
  from App_post_exchange_key_trace [of env c s] obtain es
    where es: "trace (App_post_exchange_key env c s) = trace s @ es" "list_all is_offer_post es"
    by auto
  from Cons.IH [of "App_post_exchange_key env c s"] obtain fs
    where fs: "trace (new_contact_key_loop env cs (App_post_exchange_key env c s)) =
        trace (App_post_exchange_key env c s) @ fs" "list_all is_offer_post fs"
    by auto
  from es fs have "trace (new_contact_key_loop env (c # cs) s) = trace s @ (es @ fs)"
    and "list_all is_offer_post (es @ fs)"
    by simp_all
  then show ?case by blast
qed

lemma new_contact_key_handler_trace:
  "\<exists>es. trace (snd (new_contact_key_handler env s)) = trace s @ es \<and> list_all is_offer_post es"
  using new_contact_key_loop_trace [of env _ s]
  by (auto simp: new_contact_key_handler_def split: sum.splits)

text \<open>
  C7. Whatever the environment does, the requests of one cycle fall into three
  consecutive runs: the fetch requests \<open>fs\<close>, then the posts of responses to offers \<open>rs\<close>,
  then the posts of fresh offers \<open>os\<close>. \<open>fs\<close> is all that the fetch step sends; the
  response step starts from the state the fetch step left and sends \<open>rs\<close>; the
  auto-exchange step starts from the state the response step left and sends \<open>os\<close>. A
  step that raises ends the cycle, and the later runs are empty.
\<close>

theorem cycle_steps_in_order:
  "\<exists>fs rs os.
     trace (snd (cycle env s)) = trace s @ fs @ rs @ os
     \<and> list_all is_fetch fs \<and> list_all is_response_post rs \<and> list_all is_offer_post os
     \<and> trace (snd (fetch_handler env s)) = trace s @ fs
     \<and> (case fetch_handler env s of
          (Some e, s1) \<Rightarrow> cycle env s = (Some e, s1) \<and> rs = [] \<and> os = []
        | (None, s1) \<Rightarrow>
            trace (snd (key_response_handler env s1)) = trace s1 @ rs
            \<and> (case key_response_handler env s1 of
                 (Some e, s2) \<Rightarrow> cycle env s = (Some e, s2) \<and> os = []
               | (None, s2) \<Rightarrow>
                   cycle env s = new_contact_key_handler env s2
                   \<and> trace (snd (new_contact_key_handler env s2)) = trace s2 @ os))"
proof -
  obtain r1 s1 where f: "fetch_handler env s = (r1, s1)"
    by (cases "fetch_handler env s")
  from fetch_handler_trace [of env s] f obtain fs
    where fs: "trace s1 = trace s @ fs" "list_all is_fetch fs"
    by auto
  show ?thesis
  proof (cases r1)
    case (Some e)
    with f fs show ?thesis
      by (intro exI [of _ fs] exI [of _ "[]"]) (simp add: cycle_def)
  next
    case None
    obtain r2 s2 where k: "key_response_handler env s1 = (r2, s2)"
      by (cases "key_response_handler env s1")
    from key_response_handler_trace [of env s1] k obtain rs
      where rs: "trace s2 = trace s1 @ rs" "list_all is_response_post rs"
      by auto
    show ?thesis
    proof (cases r2)
      case (Some e)
      with None f k fs rs show ?thesis
        by (intro exI [of _ fs] exI [of _ rs] exI [of _ "[]"]) (simp add: cycle_def)
    next
      case n2: None
      from new_contact_key_handler_trace [of env s2] obtain os
        where os: "trace (snd (new_contact_key_handler env s2)) = trace s2 @ os"
          "list_all is_offer_post os"
        by auto
      with None n2 f k fs rs show ?thesis
        by (intro exI [of _ fs] exI [of _ rs] exI [of _ os]) (simp add: cycle_def)
    qed
  qed
qed

text \<open>
  In the small world the cycle fetches for both contacts, answers the open offer of the
  first and, the first now having a session key, offers a key to the second.
\<close>

theorem cycle_steps_in_order_witness:
  "trace (snd (cycle demo_env demo_app)) =
     trace demo_app
     @ [Request (FetchData [Ed25519PublicKey [0xB0], Ed25519PublicKey [0xCA]])]
     @ [Request (PostExchangeKey (Ed25519PublicKey [0xB0]) (X25519PublicKey [1])
          (Some (X25519PublicKey [9])))]
     @ [Request (PostExchangeKey (Ed25519PublicKey [0xCA]) (X25519PublicKey [2]) None)]
   \<and> list_all is_fetch [Request (FetchData [Ed25519PublicKey [0xB0], Ed25519PublicKey [0xCA]])]
   \<and> list_all is_response_post
       [Request (PostExchangeKey (Ed25519PublicKey [0xB0]) (X25519PublicKey [1])
          (Some (X25519PublicKey [9])))]
   \<and> list_all is_offer_post
       [Request (PostExchangeKey (Ed25519PublicKey [0xCA]) (X25519PublicKey [2]) None)]"
proof -
  have e: "trace (snd (cycle demo_env demo_app)) =
      [Request (FetchData [Ed25519PublicKey [0xB0], Ed25519PublicKey [0xCA]]),
       Request (PostExchangeKey (Ed25519PublicKey [0xB0]) (X25519PublicKey [1])
          (Some (X25519PublicKey [9]))),
       Request (PostExchangeKey (Ed25519PublicKey [0xCA]) (X25519PublicKey [2]) None)]"
    by (simp add: demo_defs app_defs)
  have t: "trace demo_app = []"
    by (simp add: demo_app_def)
  from cycle_steps_in_order [of demo_env demo_app] obtain fs rs os
    where "trace (snd (cycle demo_env demo_app)) = trace demo_app @ fs @ rs @ os"
    by blast
  with e t show ?thesis by simp
qed

section \<open>Responding to unmatched offers\<close>

lemma find_set_matched_same:
  "find (\<lambda>r. row_id r = i) rows = Some r \<Longrightarrow>
   find (\<lambda>r. row_id r = i) (set_matched i rows) = Some (r\<lparr>matched := True\<rparr>)"
  by (induction rows) (auto split: if_splits)

lemma find_set_matched_other:
  "i \<noteq> j \<Longrightarrow>
   find (\<lambda>r. row_id r = j) (set_matched i rows) = find (\<lambda>r. row_id r = j) rows"
  by (induction rows) auto

lemma key_response_loop_append:
  "key_response_loop env (pre @ rest) s =
     (case key_response_loop env pre s of
        (Some e, s') \<Rightarrow> (Some e, s')
      | (None, s') \<Rightarrow> key_response_loop env rest s')"
  by (induction pre arbitrary: s) (auto split: prod.splits option.splits)

lemma key_response_body_other_row:
  "key_id k \<noteq> j \<Longrightarrow>
   session_get_one_ReceivedExchangeKey (engine (snd (key_response_body env k s))) j =
   session_get_one_ReceivedExchangeKey (engine s) j"
  by (auto simp: key_response_body_def Let_def add_item_def send_def
      session_get_one_ReceivedExchangeKey_def find_set_matched_other
      split: sum.splits option.splits)

lemma key_response_loop_other_row:
  "j \<notin> key_id ` set ks \<Longrightarrow>
   session_get_one_ReceivedExchangeKey (engine (snd (key_response_loop env ks s))) j =
   session_get_one_ReceivedExchangeKey (engine s) j"
proof (induction ks arbitrary: s)
  case Nil
  show ?case by simp
next
  case (Cons k ks)
  obtain r s' where b: "key_response_body env k s = (r, s')"
    by (cases "key_response_body env k s")
  from Cons.prems have "key_id k \<noteq> j" and rest: "j \<notin> key_id ` set ks"
    by auto
  with key_response_body_other_row [of k j env s] b
  have same: "session_get_one_ReceivedExchangeKey (engine s') j =
      session_get_one_ReceivedExchangeKey (engine s) j"
    by simp
  show ?case
  proof (cases r)
    case (Some e)
    with b same show ?thesis by simp
  next
    case None
    with b same Cons.IH [OF rest, of s'] show ?thesis by simp
  qed
qed

text \<open>
  C5. When the Diffie-Hellman exchange between the freshly generated private key and the
  offer's public key returns \<open>shared_secret\<close>, the relay accepts the response and the
  record of the offer is in the database, the loop body leaves the database with that
  record's \<open>matched\<close> flag set and with one new session key whose material is
  \<open>urlsafe_b64encode shared_secret\<close>: the encoding of the secret itself, nothing derived
  from it. Flag and key are written by one update. In every run of the loop body, whatever
  the environment does, the database is either left as it was or has received both.
\<close>

theorem key_response_persists_raw_shared_secret:
  "(exchange env (generate env (keys_generated s)) (public_key k) = Inr shared_secret
    \<and> post_exchange_key env (length (trace s)) (verification_key (contact k))
         (private_key_public_key env (generate env (keys_generated s)))
         (Some (public_key k)) = Inr response
    \<and> session_get_one_ReceivedExchangeKey (engine s) (key_id k) = Inr row
    \<longrightarrow> key_response_body env k s =
           (None,
            s\<lparr>keys_generated := Suc (keys_generated s),
              trace := trace s @
                [Request (PostExchangeKey (verification_key (contact k))
                   (private_key_public_key env (generate env (keys_generated s)))
                   (Some (public_key k)))],
              engine := (engine s)
                \<lparr>received_exchange_key_rows :=
                   set_matched (key_id k) (received_exchange_key_rows (engine s)),
                 fernet_key_rows :=
                   fernet_key_rows (engine s) @
                   [\<lparr>encoded_bytes = urlsafe_b64encode shared_secret,
                     fernet_contact_id = contact_id (contact k),
                     fernet_timestamp = post_key_timestamp response\<rparr>]\<rparr>\<rparr>)
         \<and> session_get_one_ReceivedExchangeKey (engine (snd (key_response_body env k s)))
             (key_id k) = Inr (row\<lparr>matched := True\<rparr>))
   \<and> (engine (snd (key_response_body env k s)) = engine s
       \<or> (\<exists>secret timestamp.
            exchange env (generate env (keys_generated s)) (public_key k) = Inr secret
            \<and> engine (snd (key_response_body env k s)) =
                (engine s)
                  \<lparr>received_exchange_key_rows :=
                     set_matched (key_id k) (received_exchange_key_rows (engine s)),
                   fernet_key_rows :=
                     fernet_key_rows (engine s) @
                     [\<lparr>encoded_bytes = urlsafe_b64encode secret,
                       fernet_contact_id = contact_id (contact k),
                       fernet_timestamp = timestamp\<rparr>]\<rparr>))"
proof (intro conjI impI)
  assume h: "exchange env (generate env (keys_generated s)) (public_key k) = Inr shared_secret
    \<and> post_exchange_key env (length (trace s)) (verification_key (contact k))
         (private_key_public_key env (generate env (keys_generated s)))
         (Some (public_key k)) = Inr response
    \<and> session_get_one_ReceivedExchangeKey (engine s) (key_id k) = Inr row"
  then show b: "key_response_body env k s =
      (None,
       s\<lparr>keys_generated := Suc (keys_generated s),
         trace := trace s @
           [Request (PostExchangeKey (verification_key (contact k))
              (private_key_public_key env (generate env (keys_generated s)))
              (Some (public_key k)))],
         engine := (engine s)
           \<lparr>received_exchange_key_rows :=
              set_matched (key_id k) (received_exchange_key_rows (engine s)),
            fernet_key_rows :=
              fernet_key_rows (engine s) @
              [\<lparr>encoded_bytes = urlsafe_b64encode shared_secret,
                fernet_contact_id = contact_id (contact k),
                fernet_timestamp = post_key_timestamp response\<rparr>]\<rparr>\<rparr>)"
    by (simp add: key_response_body_def Let_def send_def)
  from h show "session_get_one_ReceivedExchangeKey (engine (snd (key_response_body env k s)))
      (key_id k) = Inr (row\<lparr>matched := True\<rparr>)"
    by (auto simp: b session_get_one_ReceivedExchangeKey_def find_set_matched_same
        split: option.splits)
next
  show "engine (snd (key_response_body env k s)) = engine s
    \<or> (\<exists>secret timestamp.
         exchange env (generate env (keys_generated s)) (public_key k) = Inr secret
         \<and> engine (snd (key_response_body env k s)) =
             (engine s)
               \<lparr>received_exchange_key_rows :=
                  set_matched (key_id k) (received_exchange_key_rows (engine s)),
                fernet_key_rows :=
                  fernet_key_rows (engine s) @
                  [\<lparr>encoded_bytes = urlsafe_b64encode secret,
                    fernet_contact_id = contact_id (contact k),
                    fernet_timestamp = timestamp\<rparr>]\<rparr>)"
    by (auto simp: key_response_body_def Let_def add_item_def send_def
        split: sum.splits option.splits)
qed

text \<open>
  The open offer of the small world: the secret is the two bytes 0 and 9, stored as
  \<open>''AAk=''\<close>, and the offer's record is matched.
\<close>

theorem key_response_persists_raw_shared_secret_witness:
  "exchange demo_env (generate demo_env (keys_generated demo_app)) (public_key offer7) =
     Inr [0, 9]
   \<and> urlsafe_b64encode [0, 9] = ''AAk=''
   \<and> fernet_key_rows (engine (snd (key_response_body demo_env offer7 demo_app))) =
       [\<lparr>encoded_bytes = ''AAk='', fernet_contact_id = 1, fernet_timestamp = 0\<rparr>]
   \<and> received_exchange_key_rows (engine (snd (key_response_body demo_env offer7 demo_app))) =
       [\<lparr>row_id = 7, row_contact_id = 1, row_public_key = X25519PublicKey [9],
         matched = True\<rparr>]"
proof -
  have 1: "exchange demo_env (generate demo_env (keys_generated demo_app)) (public_key offer7) =
        Inr [0, 9]
      \<and> post_exchange_key demo_env (length (trace demo_app))
          (verification_key (contact offer7))
          (private_key_public_key demo_env (generate demo_env (keys_generated demo_app)))
          (Some (public_key offer7)) =
        Inr \<lparr>post_key_status = ''ok'', post_key_message = ''posted'', post_key_timestamp = 0\<rparr>
      \<and> session_get_one_ReceivedExchangeKey (engine demo_app) (key_id offer7) =
        Inr \<lparr>row_id = 7, row_contact_id = 1, row_public_key = X25519PublicKey [9],
             matched = False\<rparr>"
    by (simp add: demo_defs session_get_one_ReceivedExchangeKey_def)
  have 4: "urlsafe_b64encode [0, 9] = ''AAk=''"
    by (simp add: b64_char_def b64_alphabet_def)
  from key_response_persists_raw_shared_secret [THEN conjunct1, rule_format, OF 1] 1 4
  show ?thesis
    by (simp add: demo_defs)
qed

text \<open>
  C6. Let the unmatched records be \<open>pre @ k # rest\<close>, let the records of \<open>pre\<close> have been
  processed without an exception, and let the relay reject the response to \<open>k\<close> with a
  status error. Then the loop body logs a \<open>Bad Response\<close> entry with the error's text and
  leaves the database as it found it (no session key, the flag of \<open>k\<close> untouched), and
  the handler goes on with \<open>rest\<close> from there. When no later record has the id of
  \<open>k\<close>, its row is at the end of the step what it was before.
\<close>

theorem rejected_response_post_is_skipped:
  assumes "get_unmatched_keys env (engine s) = Inr (pre @ k # rest)"
    and "key_response_loop env pre s = (None, s1)"
    and "exchange env (generate env (keys_generated s1)) (public_key k) = Inr shared_secret"
    and "post_exchange_key env (length (trace s1)) (verification_key (contact k))
           (private_key_public_key env (generate env (keys_generated s1)))
           (Some (public_key k)) = Inl (HTTPStatusError m)"
    and "s2 = s1\<lparr>keys_generated := Suc (keys_generated s1),
                 trace := trace s1 @
                   [Request (PostExchangeKey (verification_key (contact k))
                      (private_key_public_key env (generate env (keys_generated s1)))
                      (Some (public_key k)))],
                 output_log := output_log s1 @ [Log_item ''Bad Response'' m]\<rparr>"
  shows "key_response_body env k s1 = (None, s2)
         \<and> engine s2 = engine s1
         \<and> key_response_handler env s = key_response_loop env rest s2
         \<and> (key_id k \<notin> key_id ` set rest \<longrightarrow>
              session_get_one_ReceivedExchangeKey
                (engine (snd (key_response_handler env s))) (key_id k) =
              session_get_one_ReceivedExchangeKey (engine s1) (key_id k))"
proof -
  from assms(3,4,5) have body: "key_response_body env k s1 = (None, s2)"
    by (simp add: key_response_body_def Let_def add_item_def send_def)
  from assms(5) have eng: "engine s2 = engine s1"
    by simp
  from assms(1,2) body have h: "key_response_handler env s = key_response_loop env rest s2"
    by (simp add: key_response_handler_def key_response_loop_append)
  from h eng key_response_loop_other_row [of "key_id k" rest env s2]
  have "key_id k \<notin> key_id ` set rest \<longrightarrow>
      session_get_one_ReceivedExchangeKey
        (engine (snd (key_response_handler env s))) (key_id k) =
      session_get_one_ReceivedExchangeKey (engine s1) (key_id k)"
    by simp
  with body eng h show ?thesis by blast
qed

text \<open>
  Two open offers, the relay rejecting the first post only: the first record stays
  unmatched and gets no key, the second is matched and gets its key.
\<close>

theorem rejected_response_post_is_skipped_witness:
  "get_unmatched_keys rejecting_first_env (engine two_offers_app) = Inr ([] @ offer7 # [offer8])
   \<and> post_exchange_key rejecting_first_env (length (trace two_offers_app))
        (verification_key (contact offer7))
        (private_key_public_key rejecting_first_env
           (generate rejecting_first_env (keys_generated two_offers_app)))
        (Some (public_key offer7)) = Inl (HTTPStatusError ''409 Conflict'')
   \<and> fst (key_response_handler rejecting_first_env two_offers_app) = None
   \<and> output_log (snd (key_response_handler rejecting_first_env two_offers_app)) =
       [Log_item ''Bad Response'' ''409 Conflict'']
   \<and> received_exchange_key_rows
        (engine (snd (key_response_handler rejecting_first_env two_offers_app))) =
       [\<lparr>row_id = 7, row_contact_id = 1, row_public_key = X25519PublicKey [9],
         matched = False\<rparr>,
        \<lparr>row_id = 8, row_contact_id = 2, row_public_key = X25519PublicKey [10],
         matched = True\<rparr>]
   \<and> fernet_key_rows (engine (snd (key_response_handler rejecting_first_env two_offers_app))) =
       [\<lparr>encoded_bytes = ''AQo='', fernet_contact_id = 2, fernet_timestamp = 1\<rparr>]"
proof -
  let ?s2 = "two_offers_app
      \<lparr>keys_generated := Suc (keys_generated two_offers_app),
       trace := trace two_offers_app @
         [Request (PostExchangeKey (verification_key (contact offer7))
            (private_key_public_key rejecting_first_env
               (generate rejecting_first_env (keys_generated two_offers_app)))
            (Some (public_key offer7)))],
       output_log := output_log two_offers_app @ [Log_item ''Bad Response'' ''409 Conflict'']\<rparr>"
  have 1: "get_unmatched_keys rejecting_first_env (engine two_offers_app) =
      Inr ([] @ offer7 # [offer8])"
    by (simp add: demo_defs)
  have 2: "key_response_loop rejecting_first_env [] two_offers_app = (None, two_offers_app)"
    by simp
  have 3: "exchange rejecting_first_env
      (generate rejecting_first_env (keys_generated two_offers_app)) (public_key offer7) =
      Inr [0, 9]"
    by (simp add: demo_defs)
  have 4: "post_exchange_key rejecting_first_env (length (trace two_offers_app))
      (verification_key (contact offer7))
      (private_key_public_key rejecting_first_env
         (generate rejecting_first_env (keys_generated two_offers_app)))
      (Some (public_key offer7)) = Inl (HTTPStatusError ''409 Conflict'')"
    by (simp add: demo_defs)
  from rejected_response_post_is_skipped [OF 1 2 3 4, of ?s2]
  have h: "key_response_handler rejecting_first_env two_offers_app =
      key_response_loop rejecting_first_env [offer8] ?s2"
    by simp
  have 5: "key_response_loop rejecting_first_env [offer8] ?s2 =
      (None,
       ?s2\<lparr>keys_generated := 2,
           trace := trace ?s2 @
             [Request (PostExchangeKey (Ed25519PublicKey [0xCA]) (X25519PublicKey [2])
                (Some (X25519PublicKey [10])))],
           engine := (engine ?s2)
             \<lparr>received_exchange_key_rows :=
                [\<lparr>row_id = 7, row_contact_id = 1, row_public_key = X25519PublicKey [9],
                  matched = False\<rparr>,
                 \<lparr>row_id = 8, row_contact_id = 2, row_public_key = X25519PublicKey [10],
                  matched = True\<rparr>],
              fernet_key_rows :=
                [\<lparr>encoded_bytes = ''AQo='', fernet_contact_id = 2, fernet_timestamp = 1\<rparr>]\<rparr>\<rparr>)"
    by (simp add: demo_defs app_defs b64_char_def b64_alphabet_def)
  from 1 4 h 5 show ?thesis
    by (simp add: demo_defs)
qed

section \<open>Time-outs and other failures in a connected cycle\<close>

lemma fetch_handler_connected: "connected (snd (fetch_handler env s)) = connected s"
  by (auto simp: fetch_handler_def fetch_except_def add_item_def send_def
      split: sum.splits option.splits prod.splits)

lemma key_response_body_connected: "connected (snd (key_response_body env k s)) = connected s"
  by (auto simp: key_response_body_def Let_def add_item_def send_def
      split: sum.splits option.splits prod.splits)

lemma key_response_loop_connected: "connected (snd (key_response_loop env ks s)) = connected s"
proof (induction ks arbitrary: s)
  case Nil
  show ?case by simp
next
  case (Cons k ks)
  obtain r s' where b: "key_response_body env k s = (r, s')"
    by (cases "key_response_body env k s")
  with key_response_body_connected [of env k s] have "connected s' = connected s"
    by simp
  with b Cons.IH [of s'] show ?case
    by (cases r) simp_all
qed

lemma key_response_handler_connected:
  "connected (snd (key_response_handler env s)) = connected s"
  by (simp add: key_response_handler_def key_response_loop_connected split: sum.splits)

lemma App_post_exchange_key_connected: "connected (App_post_exchange_key env c s) = connected s"
  by (auto simp: App_post_exchange_key_def Let_def add_item_def send_def
      split: sum.splits option.splits prod.splits)

lemma new_contact_key_loop_connected: "connected (new_contact_key_loop env cs s) = connected s"
  by (induction cs arbitrary: s) (simp_all add: App_post_exchange_key_connected)

lemma new_contact_key_handler_connected:
  "connected (snd (new_contact_key_handler env s)) = connected s"
  by (simp add: new_contact_key_handler_def new_contact_key_loop_connected split: sum.splits)

lemma cycle_connected: "connected (snd (cycle env s)) = connected s"
proof -
  obtain r1 s1 where f: "fetch_handler env s = (r1, s1)"
    by (cases "fetch_handler env s")
  obtain r2 s2 where k: "key_response_handler env s1 = (r2, s2)"
    by (cases "key_response_handler env s1")
  from f fetch_handler_connected [of env s] have 1: "connected s1 = connected s"
    by simp
  from k key_response_handler_connected [of env s1] have 2: "connected s2 = connected s1"
    by simp
  from f k 1 2 new_contact_key_handler_connected [of env s2] show ?thesis
    by (cases r1; cases r2) (simp_all add: cycle_def)
qed

text \<open>
  C3, as the code has it. In a pass of the loop that starts connected:
  \<^item> a time-out of the fetch request disconnects the engine, logs the connection error and
    ends the cycle: after the fetch request only the sleep follows;
  \<^item> a time-out of the post of a response to an unmatched offer does the same: the records
    after it are not processed and the auto-exchange step does not run;
  \<^item> a time-out of the post of a fresh offer in the auto-exchange step is caught inside
    \<^verbatim>\<open>_post_exchange_key\<close>, which logs it; the step goes on with the remaining
    contacts and the engine stays connected;
  \<^item> any exception other than a time-out that escapes the cycle is logged as an unhandled
    server error, and the engine stays connected.
\<close>

theorem timeouts_of_a_connected_cycle:
  assumes "connected s"
  shows "(get_contact_keys env (engine s) = Inr ks \<and> ks \<noteq> []
          \<and> fetch_data env (length (trace s)) ks = Inl (TimeoutException m)
          \<longrightarrow> server_iteration env s =
                s\<lparr>trace := trace s @ [Request (FetchData ks), Sleep],
                  output_log := output_log s @
                    [Log_item ''Server Connection Error''
                       ''Request timed out. Attempting to reconnect...''],
                  connected := False\<rparr>)
       \<and> (fetch_handler env s = (None, s1)
          \<and> get_unmatched_keys env (engine s1) = Inr (pre @ k # rest)
          \<and> key_response_loop env pre s1 = (None, s2)
          \<and> exchange env (generate env (keys_generated s2)) (public_key k) = Inr secret
          \<and> post_exchange_key env (length (trace s2)) (verification_key (contact k))
               (private_key_public_key env (generate env (keys_generated s2)))
               (Some (public_key k)) = Inl (TimeoutException m)
          \<longrightarrow> server_iteration env s =
                s2\<lparr>keys_generated := Suc (keys_generated s2),
                   trace := trace s2 @
                     [Request (PostExchangeKey (verification_key (contact k))
                        (private_key_public_key env (generate env (keys_generated s2)))
                        (Some (public_key k))), Sleep],
                   output_log := output_log s2 @
                     [Log_item ''Server Connection Error''
                        ''Request timed out. Attempting to reconnect...''],
                   connected := False\<rparr>)
       \<and> (fetch_handler env s = (None, s1)
          \<and> key_response_handler env s1 = (None, s3)
          \<and> get_contacts_without_keys env (engine s3) = Inr (c # cs)
          \<and> post_exchange_key env (length (trace s3)) (verification_key c)
               (private_key_public_key env (generate env (keys_generated s3))) None =
               Inl (TimeoutException m)
          \<longrightarrow> App_post_exchange_key env c s3 =
                s3\<lparr>keys_generated := Suc (keys_generated s3),
                   trace := trace s3 @
                     [Request (PostExchangeKey (verification_key c)
                        (private_key_public_key env (generate env (keys_generated s3))) None)],
                   output_log := output_log s3 @
                     [Log_item ''Exchange Key Post Error''
                        ''Exchange key post request timed out.'']\<rparr>
              \<and> server_iteration env s =
                  sleep (new_contact_key_loop env cs (App_post_exchange_key env c s3))
              \<and> connected (server_iteration env s))
       \<and> (cycle env s = (Some e, s') \<and> \<not> is_TimeoutException e
          \<longrightarrow> server_iteration env s =
                s'\<lparr>output_log := output_log s' @
                     [Log_item ''Unhandled Server Error'' (str_exn e)],
                   trace := trace s' @ [Sleep]\<rparr>
              \<and> connected (server_iteration env s))"
proof (intro conjI impI)
  assume h: "get_contact_keys env (engine s) = Inr ks \<and> ks \<noteq> []
    \<and> fetch_data env (length (trace s)) ks = Inl (TimeoutException m)"
  then have "cycle env s = (Some (TimeoutException m), send (FetchData ks) s)"
    by (simp add: cycle_def fetch_handler_def fetch_except_def)
  with assms show "server_iteration env s =
      s\<lparr>trace := trace s @ [Request (FetchData ks), Sleep],
        output_log := output_log s @
          [Log_item ''Server Connection Error''
             ''Request timed out. Attempting to reconnect...''],
        connected := False\<rparr>"
    by (simp add: server_iteration_def server_except_def sleep_def add_item_def send_def)
next
  assume h: "fetch_handler env s = (None, s1)
    \<and> get_unmatched_keys env (engine s1) = Inr (pre @ k # rest)
    \<and> key_response_loop env pre s1 = (None, s2)
    \<and> exchange env (generate env (keys_generated s2)) (public_key k) = Inr secret
    \<and> post_exchange_key env (length (trace s2)) (verification_key (contact k))
         (private_key_public_key env (generate env (keys_generated s2)))
         (Some (public_key k)) = Inl (TimeoutException m)"
  let ?s = "send (PostExchangeKey (verification_key (contact k))
      (private_key_public_key env (generate env (keys_generated s2)))
      (Some (public_key k))) (s2\<lparr>keys_generated := Suc (keys_generated s2)\<rparr>)"
  from h have "key_response_body env k s2 = (Some (TimeoutException m), ?s)"
    by (simp add: key_response_body_def Let_def)
  with h have "key_response_handler env s1 = (Some (TimeoutException m), ?s)"
    by (simp add: key_response_handler_def key_response_loop_append)
  with h have "cycle env s = (Some (TimeoutException m), ?s)"
    by (simp add: cycle_def)
  with assms show "server_iteration env s =
      s2\<lparr>keys_generated := Suc (keys_generated s2),
         trace := trace s2 @
           [Request (PostExchangeKey (verification_key (contact k))
              (private_key_public_key env (generate env (keys_generated s2)))
              (Some (public_key k))), Sleep],
         output_log := output_log s2 @
           [Log_item ''Server Connection Error''
              ''Request timed out. Attempting to reconnect...''],
         connected := False\<rparr>"
    by (simp add: server_iteration_def server_except_def sleep_def add_item_def send_def)
next
  assume h: "fetch_handler env s = (None, s1)
    \<and> key_response_handler env s1 = (None, s3)
    \<and> get_contacts_without_keys env (engine s3) = Inr (c # cs)
    \<and> post_exchange_key env (length (trace s3)) (verification_key c)
         (private_key_public_key env (generate env (keys_generated s3))) None =
         Inl (TimeoutException m)"
  from h fetch_handler_connected [of env s] key_response_handler_connected [of env s1] assms
  have c3: "connected s3"
    by simp
  with h show "App_post_exchange_key env c s3 =
      s3\<lparr>keys_generated := Suc (keys_generated s3),
         trace := trace s3 @
           [Request (PostExchangeKey (verification_key c)
              (private_key_public_key env (generate env (keys_generated s3))) None)],
         output_log := output_log s3 @
           [Log_item ''Exchange Key Post Error''
              ''Exchange key post request timed out.'']\<rparr>"
    by (simp add: App_post_exchange_key_def Let_def post_exchange_key_except_def
        add_item_def send_def)
  from h have cy: "cycle env s =
      (None, new_contact_key_loop env cs (App_post_exchange_key env c s3))"
    by (simp add: cycle_def new_contact_key_handler_def)
  with assms show it: "server_iteration env s =
      sleep (new_contact_key_loop env cs (App_post_exchange_key env c s3))"
    by (simp add: server_iteration_def)
  from c3 show "connected (server_iteration env s)"
    by (simp add: it sleep_def new_contact_key_loop_connected App_post_exchange_key_connected)
next
  assume h: "cycle env s = (Some e, s') \<and> \<not> is_TimeoutException e"
  with assms show it: "server_iteration env s =
      s'\<lparr>output_log := output_log s' @ [Log_item ''Unhandled Server Error'' (str_exn e)],
         trace := trace s' @ [Sleep]\<rparr>"
    by (simp add: server_iteration_def server_except_def sleep_def add_item_def)
  from h cycle_connected [of env s] assms have "connected s'"
    by simp
  then show "connected (server_iteration env s)"
    by (simp add: it)
qed

text \<open>
  C3 as stated fails for the auto-exchange step. Both contacts lack a session key and
  every post of an exchange key times out: the first offer's time-out is logged, the
  engine stays connected, and the second offer is still posted before the pass ends with
  its sleep.
\<close>

theorem timeout_in_auto_exchange_counterexample:
  "connected no_offers_app
   \<and> post_exchange_key posts_time_out_env 1 (verification_key bob) (X25519PublicKey [1]) None =
       Inl (TimeoutException ''timed out'')
   \<and> connected (server_iteration posts_time_out_env no_offers_app)
   \<and> trace (server_iteration posts_time_out_env no_offers_app) =
       [Request (FetchData [Ed25519PublicKey [0xB0], Ed25519PublicKey [0xCA]]),
        Request (PostExchangeKey (Ed25519PublicKey [0xB0]) (X25519PublicKey [1]) None),
        Request (PostExchangeKey (Ed25519PublicKey [0xCA]) (X25519PublicKey [2]) None),
        Sleep]
   \<and> output_log (server_iteration posts_time_out_env no_offers_app) =
       [Log_item ''Exchange Key Post Error'' ''Exchange key post request timed out.'',
        Log_item ''Exchange Key Post Error'' ''Exchange key post request timed out.'']"
  by (simp add: demo_defs app_defs step_defs)

text \<open>
  The four cases in the small world: a fetch that times out, a response post that times
  out, offer posts that time out, and a database read that fails.
\<close>

theorem timeouts_of_a_connected_cycle_witness:
  "server_iteration fetch_times_out_env demo_app =
     demo_app\<lparr>trace := [Request (FetchData [Ed25519PublicKey [0xB0], Ed25519PublicKey [0xCA]]),
                       Sleep],
              output_log := [Log_item ''Server Connection Error''
                               ''Request timed out. Attempting to reconnect...''],
              connected := False\<rparr>
   \<and> \<not> connected (server_iteration posts_time_out_env demo_app)
   \<and> trace (server_iteration posts_time_out_env demo_app) =
       [Request (FetchData [Ed25519PublicKey [0xB0], Ed25519PublicKey [0xCA]]),
        Request (PostExchangeKey (Ed25519PublicKey [0xB0]) (X25519PublicKey [1])
          (Some (X25519PublicKey [9]))),
        Sleep]
   \<and> connected (server_iteration posts_time_out_env no_offers_app)
   \<and> connected (server_iteration database_locked_env demo_app)
   \<and> output_log (server_iteration database_locked_env demo_app) =
       [Log_item ''Unhandled Server Error'' ''database is locked'']"
proof -
  let ?ks = "[Ed25519PublicKey [0xB0], Ed25519PublicKey [0xCA]]"
  let ?s1 = "demo_app\<lparr>trace := [Request (FetchData ?ks)], message_log_updates := 1\<rparr>"
  let ?n1 = "no_offers_app\<lparr>trace := [Request (FetchData ?ks)], message_log_updates := 1\<rparr>"
  have c: "connected demo_app" and cn: "connected no_offers_app"
    by (simp_all add: demo_defs)
  have 1: "get_contact_keys fetch_times_out_env (engine demo_app) = Inr ?ks \<and> ?ks \<noteq> []
      \<and> fetch_data fetch_times_out_env (length (trace demo_app)) ?ks =
        Inl (TimeoutException ''timed out'')"
    by (simp add: demo_defs)
  have 2: "fetch_handler posts_time_out_env demo_app = (None, ?s1)
      \<and> get_unmatched_keys posts_time_out_env (engine ?s1) = Inr ([] @ offer7 # [])
      \<and> key_response_loop posts_time_out_env [] ?s1 = (None, ?s1)
      \<and> exchange posts_time_out_env (generate posts_time_out_env (keys_generated ?s1))
          (public_key offer7) = Inr [0, 9]
      \<and> post_exchange_key posts_time_out_env (length (trace ?s1))
          (verification_key (contact offer7))
          (private_key_public_key posts_time_out_env
             (generate posts_time_out_env (keys_generated ?s1)))
          (Some (public_key offer7)) = Inl (TimeoutException ''timed out'')"
    by (simp add: demo_defs fetch_handler_def send_def)
  have 3: "fetch_handler posts_time_out_env no_offers_app = (None, ?n1)
      \<and> key_response_handler posts_time_out_env ?n1 = (None, ?n1)
      \<and> get_contacts_without_keys posts_time_out_env (engine ?n1) = Inr (bob # [carol])
      \<and> post_exchange_key posts_time_out_env (length (trace ?n1)) (verification_key bob)
          (private_key_public_key posts_time_out_env
             (generate posts_time_out_env (keys_generated ?n1))) None =
        Inl (TimeoutException ''timed out'')"
    by (simp add: demo_defs fetch_handler_def key_response_handler_def send_def)
  have 4: "cycle database_locked_env demo_app = (Some (OtherException ''database is locked''), ?s1)
      \<and> \<not> is_TimeoutException (OtherException ''database is locked'')"
    by (simp add: demo_defs app_defs)
  note t = timeouts_of_a_connected_cycle
  note t1 = t [OF c, THEN conjunct1, rule_format, OF 1]
  note t2 = t [OF c, THEN conjunct2, THEN conjunct1, rule_format, OF 2]
  note t3 = t [OF cn, THEN conjunct2, THEN conjunct2, THEN conjunct1, rule_format, OF 3]
  note t4 = t [OF c, THEN conjunct2, THEN conjunct2, THEN conjunct2, rule_format, OF 4]
  from t1 have w1: "server_iteration fetch_times_out_env demo_app =
      demo_app\<lparr>trace := [Request (FetchData ?ks), Sleep],
               output_log := [Log_item ''Server Connection Error''
                                ''Request timed out. Attempting to reconnect...''],
               connected := False\<rparr>"
    by (simp add: demo_app_def)
  from t2 have w2: "\<not> connected (server_iteration posts_time_out_env demo_app)
      \<and> trace (server_iteration posts_time_out_env demo_app) =
        [Request (FetchData ?ks),
         Request (PostExchangeKey (Ed25519PublicKey [0xB0]) (X25519PublicKey [1])
           (Some (X25519PublicKey [9]))),
         Sleep]"
    by (simp add: demo_defs)
  from t3 have w3: "connected (server_iteration posts_time_out_env no_offers_app)"
    by blast
  from t4 have w4: "connected (server_iteration database_locked_env demo_app)
      \<and> output_log (server_iteration database_locked_env demo_app) =
        [Log_item ''Unhandled Server Error'' ''database is locked'']"
    by (simp add: demo_app_def)
  from w1 w2 w3 w4 show ?thesis
    by blast
qed

section \<open>Probing while disconnected\<close>

lemma server_iteration_disconnected:
  assumes "\<not> connected s" and "ping env (length (trace s)) = Inl e"
  shows "server_iteration env s = s\<lparr>trace := trace s @ [Request Ping]\<rparr>"
  using assms
  by (cases s) (simp add: server_iteration_def ping_server_def send_def)

text \<open>
  While every probe fails, \<open>n\<close> passes of the loop are \<open>n\<close> probes and nothing else.
\<close>

lemma run_server_operations_disconnected:
  assumes "\<not> connected s" and "\<forall>i. \<exists>e. ping env i = Inl e"
  shows "run_server_operations n env s = s\<lparr>trace := trace s @ replicate n (Request Ping)\<rparr>"
  using assms(1)
proof (induction n arbitrary: s)
  case 0
  show ?case by simp
next
  case (Suc n)
  from assms(2) obtain e where "ping env (length (trace s)) = Inl e"
    by blast
  with Suc.prems have it: "server_iteration env s = s\<lparr>trace := trace s @ [Request Ping]\<rparr>"
    by (rule server_iteration_disconnected)
  from Suc.prems have "\<not> connected (s\<lparr>trace := trace s @ [Request Ping]\<rparr>)"
    by simp
  from Suc.IH [OF this] it show ?case
    by (simp add: replicate_append_same)
qed

text \<open>
  C4. The engine is disconnected and the relay refuses the probe. Two passes of the loop
  leave the engine disconnected and send two probes with no sleep between or after them:
  a pass that starts disconnected ends at \<^verbatim>\<open>continue\<close>, before
  \<^verbatim>\<open>time.sleep\<close>. Two connected passes, with nothing to send, are two sleeps.
\<close>

theorem disconnected_probes_without_sleep:
  "\<not> connected disconnected_app
   \<and> ping unreachable_env 0 = Inl (OtherException ''connection refused'')
   \<and> \<not> connected (run_server_operations 2 unreachable_env disconnected_app)
   \<and> trace (run_server_operations 2 unreachable_env disconnected_app) =
       [Request Ping, Request Ping]
   \<and> trace (run_server_operations 2 demo_env no_contacts_app) = [Sleep, Sleep]"
  by (simp add: demo_defs app_defs step_defs numeral_2_eq_2)

section \<open>Posting a message\<close>





text \<open>
  C8. A contact is selected, the entry field is not empty, and the contact has no session
  key. Then \<^verbatim>\<open>_post_message\<close> raises nothing and changes nothing but the output log, to
  which it adds one entry naming the unmet precondition: the missing encryption key, or
  the missing connection when the engine is disconnected (that check comes first). No
  request is sent and the database is untouched.
\<close>

theorem post_message_without_session_key_is_refused:
  assumes "selected_contact s = Some sc"
    and "message_entry_input s \<noteq> []"
    and "session_get_Contact (engine s) (contact_id sc) = Some obj"
    and "ContactOutputSchema_model_validate env (engine s) obj = Inr c"
    and "fernet_keys c = []"
  shows "App_post_message env s =
           (None,
            s\<lparr>output_log := output_log s @
                [if connected s
                 then Log_item ''Message Post Error - No Encryption Key''
                        (''No messages can be posted before a successful key exchange with ''
                         @ name c @ ''.'')
                 else Log_item ''Message Post Error - No Connection''
                        ''No messages can be sent until a connection to the server is established.'']\<rparr>)
         \<and> trace (snd (App_post_message env s)) = trace s
         \<and> engine (snd (App_post_message env s)) = engine s"
  using assms
  by (simp add: App_post_message_def add_item_def)

theorem post_message_without_session_key_is_refused_witness:
  "ContactOutputSchema_model_validate demo_env (engine demo_app) bob =
     Inr \<lparr>contact_id = 1, name = ''bob'', verification_key = Ed25519PublicKey [0xB0],
          fernet_keys = []\<rparr>
   \<and> App_post_message demo_env demo_app =
       (None,
        demo_app\<lparr>output_log :=
          [Log_item ''Message Post Error - No Encryption Key''
             ''No messages can be posted before a successful key exchange with bob.'']\<rparr>)
   \<and> App_post_message demo_env disconnected_app =
       (None,
        disconnected_app\<lparr>output_log :=
          [Log_item ''Message Post Error - No Connection''
             ''No messages can be sent until a connection to the server is established.'']\<rparr>)"
proof -
  let ?c = "\<lparr>contact_id = 1, name = ''bob'', verification_key = Ed25519PublicKey [0xB0],
      fernet_keys = []\<rparr>"
  have 1: "selected_contact demo_app = Some bob"
    and 2: "message_entry_input demo_app \<noteq> []"
    and 3: "session_get_Contact (engine demo_app) (contact_id bob) = Some bob"
    and 4: "ContactOutputSchema_model_validate demo_env (engine demo_app) bob = Inr ?c"
    and 5: "fernet_keys ?c = []"
    by (simp_all add: demo_defs session_get_Contact_def)
  have d1: "selected_contact disconnected_app = Some bob"
    and d2: "message_entry_input disconnected_app \<noteq> []"
    and d3: "session_get_Contact (engine disconnected_app) (contact_id bob) = Some bob"
    and d4: "ContactOutputSchema_model_validate demo_env (engine disconnected_app) bob = Inr ?c"
    by (simp_all add: demo_defs session_get_Contact_def)
  from post_message_without_session_key_is_refused [OF 1 2 3 4 5]
    post_message_without_session_key_is_refused [OF d1 d2 d3 d4 5] 4
  show ?thesis
    by (simp add: demo_defs)
qed

end
